theory Spec2Isabelle
  imports Complex_Main
begin

section \<open>Values, errors and arithmetic shared by the evaluators\<close>

text \<open>
  The evaluators are Python. An uncaught exception is a value \<open>Inl e\<close> of the result
  type \<open>error + 'a\<close>. Python floats are read as real numbers: the scores below are
  quotients of small counts, and the properties proved are about those quotients.
\<close>

datatype error = ZeroDivisionError | ExternalError

text \<open>Python's \<open>a / b\<close>: true division, raising on a zero divisor.\<close>

definition py_truediv :: "real \<Rightarrow> real \<Rightarrow> error + real" where
  "py_truediv a b = (if b = 0 then Inl ZeroDivisionError else Inr (a / b))"

text \<open>
  Python's \<open>round(x, 4)\<close>: the nearest multiple of \<open>1/10000\<close>, a tie going to the even
  neighbour. \<open>round4\<close> rounds the exact quotient; Python rounds the float nearest to
  it, and the two can differ by \<open>1/10000\<close> where the exact quotient lies halfway
  between two multiples (as \<open>1/160\<close> does). The properties below use \<open>round4\<close> at
  \<open>0\<close> and for bounds only, where the two agree.
\<close>

definition round_half_even :: "real \<Rightarrow> int" where
  "round_half_even x =
     (let f = \<lfloor>x\<rfloor>; d = x - of_int f
      in if d < 1 / 2 then f
         else if 1 / 2 < d then f + 1
         else if even f then f else f + 1)"

definition round4 :: "real \<Rightarrow> real" where
  "round4 x = of_int (round_half_even (x * 10000)) / 10000"

definition map_result :: "('a \<Rightarrow> 'b) \<Rightarrow> error + 'a \<Rightarrow> error + 'b" where
  "map_result f r = (case r of Inl e \<Rightarrow> Inl e | Inr x \<Rightarrow> Inr (f x))"

section \<open>Strings and characters\<close>

text \<open>
  A Python \<open>str\<close> is modelled as a \<open>string\<close>, each \<open>char\<close> standing for the code
  point of the same number (0 to 255). The character classes below are Python's on that
  range: \<open>str.isspace\<close> and the pattern \<open>\s\<close> agree on whitespace, \<open>\w\<close> is an
  alphanumeric code point or the underscore, and \<open>str.lower\<close> moves the upper-case
  letters, ASCII and Latin-1, 32 places up.
\<close>

definition char_code :: "char \<Rightarrow> nat" where
  "char_code c = of_char c"

definition in_range :: "nat \<Rightarrow> nat \<Rightarrow> char \<Rightarrow> bool" where
  "in_range lo hi c = (lo \<le> char_code c \<and> char_code c \<le> hi)"

definition is_space :: "char \<Rightarrow> bool" where
  "is_space c =
     (in_range 9 13 c \<or> in_range 28 32 c \<or> char_code c = 133 \<or> char_code c = 160)"

definition is_word :: "char \<Rightarrow> bool" where
  "is_word c =
     (in_range 48 57 c \<or> in_range 65 90 c \<or> char_code c = 95 \<or> in_range 97 122 c
      \<or> char_code c = 170 \<or> in_range 178 179 c \<or> char_code c = 181
      \<or> in_range 185 186 c \<or> in_range 188 190 c \<or> in_range 192 214 c
      \<or> in_range 216 246 c \<or> in_range 248 255 c)"

definition lower_char :: "char \<Rightarrow> char" where
  "lower_char c =
     (if in_range 65 90 c \<or> in_range 192 214 c \<or> in_range 216 222 c
      then char_of (char_code c + 32) else c)"

text \<open>\<open>s.lower()\<close> and \<open>s.strip()\<close>.\<close>

definition str_lower :: "string \<Rightarrow> string" where
  "str_lower s = map lower_char s"

definition str_strip :: "string \<Rightarrow> string" where
  "str_strip s = rev (dropWhile is_space (rev (dropWhile is_space s)))"

text \<open>The character classes written in the patterns of the source.\<close>

definition id_start :: "char \<Rightarrow> bool" where
  \<comment> \<open>\<open>[a-zA-Z_]\<close>\<close>
  "id_start c = (in_range 97 122 c \<or> in_range 65 90 c \<or> char_code c = 95)"

definition id_char :: "char \<Rightarrow> bool" where
  \<comment> \<open>\<open>[a-zA-Z0-9_]\<close>\<close>
  "id_char c =
     (in_range 97 122 c \<or> in_range 65 90 c \<or> in_range 48 57 c \<or> char_code c = 95)"

definition lower_id_char :: "char \<Rightarrow> bool" where
  \<comment> \<open>\<open>[a-z0-9_]\<close>\<close>
  "lower_id_char c = (in_range 97 122 c \<or> in_range 48 57 c \<or> char_code c = 95)"

definition not_newline :: "char \<Rightarrow> bool" where
  \<comment> \<open>the dot, which matches everything but a line feed\<close>
  "not_newline c = (char_code c \<noteq> 10)"

definition not_semicolon :: "char \<Rightarrow> bool" where
  \<comment> \<open>\<open>[^;]\<close>\<close>
  "not_semicolon c = (c \<noteq> CHR '';'')"

definition is_backtick :: "char \<Rightarrow> bool" where
  "is_backtick c = (char_code c = 96)"

definition is_semicolon :: "char \<Rightarrow> bool" where
  "is_semicolon c = (c = CHR '';'')"

section \<open>Regular expressions as Python's \<open>re\<close> runs them\<close>

text \<open>
  The source extracts everything with \<open>re.sub\<close> and \<open>re.findall\<close>. Python's matcher is
  a backtracking one: at a position it tries the alternatives of the pattern in a fixed
  order of preference (a greedy repetition the longest run first, a lazy one the shortest
  first, the alternatives of a bar from left to right) and returns the first complete
  match. \<open>ms r st\<close> lists, in that order of preference, every way \<open>r\<close> matches at the
  state \<open>st\<close>; its head is the match Python returns. A state holds the groups captured so
  far (the latest first), the character before the position (for \<open>\b\<close>) and the rest of
  the subject. Repetition is of a character class, as everywhere in the source.
\<close>

datatype rx =
    Ch "char \<Rightarrow> bool"
  | Lit string
  | Star "char \<Rightarrow> bool"
  | Lazy "char \<Rightarrow> bool"
  | Seq rx rx
  | Alt rx rx
  | Opt rx
  | Grp nat rx
  | Eos
  | Wordb
  | Eps

type_synonym mstate = "(nat \<times> string) list \<times> char option \<times> string"

fun greedy_splits :: "(char \<Rightarrow> bool) \<Rightarrow> mstate \<Rightarrow> mstate list" where
  "greedy_splits p (g, pv, []) = [(g, pv, [])]"
| "greedy_splits p (g, pv, c # cs) =
     (if p c then greedy_splits p (g, Some c, cs) @ [(g, pv, c # cs)]
      else [(g, pv, c # cs)])"

fun lazy_splits :: "(char \<Rightarrow> bool) \<Rightarrow> mstate \<Rightarrow> mstate list" where
  "lazy_splits p (g, pv, []) = [(g, pv, [])]"
| "lazy_splits p (g, pv, c # cs) =
     (if p c then (g, pv, c # cs) # lazy_splits p (g, Some c, cs)
      else [(g, pv, c # cs)])"

fun lit_step :: "string \<Rightarrow> mstate \<Rightarrow> mstate list" where
  "lit_step [] st = [st]"
| "lit_step (w # ws) (g, pv, []) = []"
| "lit_step (w # ws) (g, pv, c # cs) =
     (if w = c then lit_step ws (g, Some c, cs) else [])"

definition word_before :: "char option \<Rightarrow> bool" where
  "word_before pv = (case pv of None \<Rightarrow> False | Some c \<Rightarrow> is_word c)"

definition word_after :: "string \<Rightarrow> bool" where
  "word_after s = (case s of [] \<Rightarrow> False | c # _ \<Rightarrow> is_word c)"

fun ms :: "rx \<Rightarrow> mstate \<Rightarrow> mstate list" where
  "ms (Ch p) (g, pv, s) =
     (case s of [] \<Rightarrow> [] | c # cs \<Rightarrow> if p c then [(g, Some c, cs)] else [])"
| "ms (Lit w) st = lit_step w st"
| "ms (Star p) st = greedy_splits p st"
| "ms (Lazy p) st = lazy_splits p st"
| "ms (Seq a b) st = concat (map (ms b) (ms a st))"
| "ms (Alt a b) st = ms a st @ ms b st"
| "ms (Opt a) st = ms a st @ [st]"
| "ms (Grp i a) (g, pv, s) =
     map (\<lambda>(g', pv', s'). ((i, take (length s - length s') s) # g', pv', s'))
         (ms a (g, pv, s))"
| "ms Eos (g, pv, s) = (if s = [] \<or> s = [CHR 0x0A] then [(g, pv, s)] else [])"
| "ms Wordb (g, pv, s) = (if word_before pv \<noteq> word_after s then [(g, pv, s)] else [])"
| "ms Eps st = [st]"

definition rx_seqs :: "rx list \<Rightarrow> rx" where
  "rx_seqs rs = foldr Seq rs Eps"

definition rx_plus :: "(char \<Rightarrow> bool) \<Rightarrow> rx" where
  \<comment> \<open>\<open>p+\<close>\<close>
  "rx_plus p = Seq (Ch p) (Star p)"

definition rx_lazy_plus :: "(char \<Rightarrow> bool) \<Rightarrow> rx" where
  \<comment> \<open>\<open>p+?\<close>\<close>
  "rx_lazy_plus p = Seq (Ch p) (Lazy p)"

definition rx_ident :: rx where
  \<comment> \<open>\<open>[a-zA-Z_][a-zA-Z0-9_]*\<close>\<close>
  "rx_ident = Seq (Ch id_start) (Star id_char)"

text \<open>
  A match is the groups it captured and the text it covers. \<open>re_scan\<close> is the scan that
  \<open>re.findall\<close> and \<open>re.sub\<close> share: try the pattern at the current position; on a match
  go on after it, otherwise move one character on. A match of no character is recorded and
  the scan moves one character on; no pattern of the source matches the empty string.
  \<open>re_sub_from\<close> copies what lies between the matches and writes the replacement for each
  match (the replacements of the source refer to no group).
\<close>

type_synonym rmatch = "(nat \<times> string) list \<times> string"

function re_scan :: "rx \<Rightarrow> char option \<Rightarrow> string \<Rightarrow> rmatch list" where
  "re_scan r pv s =
     (case ms r ([], pv, s) of
        [] \<Rightarrow> (case s of [] \<Rightarrow> [] | c # cs \<Rightarrow> re_scan r (Some c) cs)
      | (g, pv', s') # _ \<Rightarrow>
          if length s' < length s
          then (g, take (length s - length s') s) # re_scan r pv' s'
          else (case s of [] \<Rightarrow> [(g, [])] | c # cs \<Rightarrow> (g, []) # re_scan r (Some c) cs))"
  by pat_completeness auto
termination
  by (relation "measure (\<lambda>(r, pv, s). length s)") auto

function re_sub_from :: "rx \<Rightarrow> string \<Rightarrow> char option \<Rightarrow> string \<Rightarrow> string" where
  "re_sub_from r rep pv s =
     (case ms r ([], pv, s) of
        [] \<Rightarrow> (case s of [] \<Rightarrow> [] | c # cs \<Rightarrow> c # re_sub_from r rep (Some c) cs)
      | (g, pv', s') # _ \<Rightarrow>
          if length s' < length s
          then rep @ re_sub_from r rep pv' s'
          else (case s of [] \<Rightarrow> rep | c # cs \<Rightarrow> rep @ c # re_sub_from r rep (Some c) cs))"
  by pat_completeness auto
termination
  by (relation "measure (\<lambda>(r, rep, pv, s). length s)") auto

definition re_sub :: "rx \<Rightarrow> string \<Rightarrow> string \<Rightarrow> string" where
  "re_sub r rep s = re_sub_from r rep None s"

definition re_findall :: "rx \<Rightarrow> string \<Rightarrow> rmatch list" where
  "re_findall r s = re_scan r None s"

text \<open>
  The text of group \<open>i\<close> of a match; \<open>re.findall\<close> gives the empty string for a group that
  took no part.
\<close>

definition match_group :: "nat \<Rightarrow> rmatch \<Rightarrow> string" where
  "match_group i m = (case map_of (fst m) i of None \<Rightarrow> [] | Some t \<Rightarrow> t)"

section \<open>The two normalizers\<close>

definition rx_backtick :: rx where
  "rx_backtick = Ch is_backtick"

definition rx_spaces :: rx where
  \<comment> \<open>\<open>\s+\<close>\<close>
  "rx_spaces = rx_plus is_space"

definition rx_as :: rx where
  "rx_as = Lit '' as ''"

definition rx_qualifier :: rx where
  \<comment> \<open>\<open>([a-z0-9_]+)\s*\.\<close>\<close>
  "rx_qualifier = rx_seqs [Grp 1 (rx_plus lower_id_char), Star is_space, Lit ''.'']"

definition rx_semicolon :: rx where
  "rx_semicolon = Ch is_semicolon"

text \<open>\<open>normalize_sql\<close> of \<open>lexical_evaluator.py\<close>.\<close>

definition normalize_sql_lexical :: "string \<Rightarrow> string" where
  "normalize_sql_lexical sql =
     (let sql = str_lower sql;
          sql = re_sub rx_backtick [] sql;
          sql = re_sub rx_spaces '' '' sql;
          sql = re_sub rx_as '' '' sql;
          sql = re_sub rx_qualifier [] sql;
          sql = re_sub rx_semicolon [] sql;
          sql = str_strip sql
      in sql)"

text \<open>\<open>normalize_sql\<close> of \<open>struct_evaluator.py\<close>: the same without the qualifier step.\<close>

definition normalize_sql_struct :: "string \<Rightarrow> string" where
  "normalize_sql_struct sql =
     (let sql = str_lower sql;
          sql = re_sub rx_backtick [] sql;
          sql = re_sub rx_spaces '' '' sql;
          sql = re_sub rx_as '' '' sql;
          sql = re_sub rx_semicolon [] sql;
          sql = str_strip sql
      in sql)"

section \<open>Lexical evaluator\<close>

definition rx_attribute :: rx where
  \<comment> \<open>\<open>\b[a-zA-Z_][a-zA-Z0-9_]*\b\<close>\<close>
  "rx_attribute = rx_seqs [Wordb, Ch id_start, Star id_char, Wordb]"

definition reserved :: "string list" where
  "reserved =
     [''select'', ''from'', ''where'', ''and'', ''or'', ''join'', ''on'', ''as'', ''sum'',
      ''count'', ''avg'', ''min'', ''max'', ''group'', ''by'', ''order'', ''limit'',
      ''inner'', ''left'', ''right'', ''outer'', ''cast'', ''case'', ''when'', ''then'',
      ''else'', ''end'', ''distinct'', ''having'', ''like'', ''in'', ''between'',
      ''union'', ''all'']"

definition extract_attributes :: "string \<Rightarrow> string list" where
  "extract_attributes sql =
     (let tokens = map snd (re_findall rx_attribute (str_lower sql))
      in filter (\<lambda>t. t \<notin> set reserved) tokens)"

text \<open>
  \<open>Levenshtein.distance\<close> of the library: the least number of insertions, deletions and
  substitutions of one character that turn one string into the other.
\<close>

fun levenshtein_distance :: "string \<Rightarrow> string \<Rightarrow> nat" where
  "levenshtein_distance [] b = length b"
| "levenshtein_distance (x # a) [] = length (x # a)"
| "levenshtein_distance (x # a) (y # b) =
     min (min (levenshtein_distance a (y # b) + 1) (levenshtein_distance (x # a) b + 1))
         (levenshtein_distance a b + (if x = y then 0 else 1))"

definition levenshtein_similarity :: "string \<Rightarrow> string \<Rightarrow> error + real" where
  "levenshtein_similarity a b =
     (if a = [] \<or> b = [] then Inr 0
      else
        (let dist = levenshtein_distance a b
         in map_result (\<lambda>q. 1 - q)
              (py_truediv (real dist) (real (max (length a) (length b))))))"

definition lexical_accuracy :: "string \<Rightarrow> string \<Rightarrow> error + real" where
  "lexical_accuracy golden_sql generated_sql =
     (let attrs_gold = set (extract_attributes golden_sql);
          attrs_gen = set (extract_attributes generated_sql)
      in if attrs_gold = {} then Inr 0
         else py_truediv (real (card (attrs_gold \<inter> attrs_gen))) (real (card attrs_gold)))"

section \<open>Structural evaluator\<close>

text \<open>A Python \<open>dict\<close> keeps its keys in the order they were first set.\<close>

type_synonym ('k, 'v) dict = "('k \<times> 'v) list"

fun dict_set :: "'k \<Rightarrow> 'v \<Rightarrow> ('k, 'v) dict \<Rightarrow> ('k, 'v) dict" where
  "dict_set k v [] = [(k, v)]"
| "dict_set k v ((k', v') # d) = (if k' = k then (k, v) # d else (k', v') # dict_set k v d)"

definition dict_get :: "('k, 'v) dict \<Rightarrow> 'k \<Rightarrow> 'v \<Rightarrow> 'v" where
  \<comment> \<open>\<open>d.get(k, default)\<close>\<close>
  "dict_get d k dflt = (case map_of d k of None \<Rightarrow> dflt | Some v \<Rightarrow> v)"

definition dict_values :: "('k, 'v) dict \<Rightarrow> 'v list" where
  "dict_values d = map snd d"

definition rx_table :: rx where
  \<comment> \<open>\<open>(?:from|join)\s+([a-zA-Z_][a-zA-Z0-9_]*)(?:\s+as\s+([a-zA-Z_][a-zA-Z0-9_]*))?\<close>\<close>
  "rx_table =
     rx_seqs [Alt (Lit ''from'') (Lit ''join''), rx_plus is_space, Grp 1 rx_ident,
              Opt (rx_seqs [rx_plus is_space, Lit ''as'', rx_plus is_space, Grp 2 rx_ident])]"

definition extract_tables :: "string \<Rightarrow> (string, string) dict" where
  "extract_tables sql =
     (let sql = str_lower sql;
          tables = re_findall rx_table sql
      in foldl (\<lambda>table_map t.
                  let table_name = match_group 1 t; alias = match_group 2 t
                  in dict_set (if alias \<noteq> [] then alias else table_name) table_name table_map)
               [] tables)"

definition rx_join_block :: rx where
  \<comment> \<open>\<open>join\s+[a-zA-Z_][a-zA-Z0-9_]*.*?on\s+([^;]+?)(?:\s+join|\s+where|$)\<close>\<close>
  "rx_join_block =
     rx_seqs [Lit ''join'', rx_plus is_space, Ch id_start, Star id_char, Lazy not_newline,
              Lit ''on'', rx_plus is_space, Grp 1 (rx_lazy_plus not_semicolon),
              Alt (Seq (rx_plus is_space) (Lit ''join''))
                  (Alt (Seq (rx_plus is_space) (Lit ''where'')) Eos)]"

definition rx_join_pair :: rx where
  \<comment> \<open>\<open>([a-zA-Z_][a-zA-Z0-9_]*)\.[a-zA-Z_][a-zA-Z0-9_]*\s*=\s*([a-zA-Z_][a-zA-Z0-9_]*)\.[a-zA-Z_][a-zA-Z0-9_]*\<close>\<close>
  "rx_join_pair =
     rx_seqs [Grp 1 rx_ident, Lit ''.'', rx_ident, Star is_space, Lit ''='', Star is_space,
              Grp 2 rx_ident, Lit ''.'', rx_ident]"

definition extract_joins :: "string \<Rightarrow> (string \<times> string) list" where
  "extract_joins sql =
     (let sql = str_lower sql;
          join_blocks = map (match_group 1) (re_findall rx_join_block sql)
      in concat (map (\<lambda>jb. map (\<lambda>m. (match_group 1 m, match_group 2 m))
                                (re_findall rx_join_pair jb))
                     join_blocks))"

text \<open>
  \<open>networkx.Graph\<close>: the nodes in the order they were added, and for each node its
  neighbours in the order the edges were added. \<open>add_edge\<close> adds a missing end node
  first. \<open>edges()\<close> walks the nodes in order and reports, for a node \<open>n\<close>, the pair
  \<open>(n, nbr)\<close> for each neighbour \<open>nbr\<close> that was not walked before: every edge once, written
  from the end node that was added to the graph first.
\<close>

record graph =
  nodes :: "string list"
  adj :: "(string, string list) dict"

definition empty_graph :: graph where
  "empty_graph = \<lparr>nodes = [], adj = []\<rparr>"

definition add_node :: "string \<Rightarrow> graph \<Rightarrow> graph" where
  "add_node n G =
     (if n \<in> set (nodes G) then G
      else G\<lparr>nodes := nodes G @ [n], adj := dict_set n [] (adj G)\<rparr>)"

definition add_neighbour :: "string \<Rightarrow> string \<Rightarrow> graph \<Rightarrow> graph" where
  "add_neighbour u v G =
     (let nbrs = dict_get (adj G) u []
      in G\<lparr>adj := dict_set u (if v \<in> set nbrs then nbrs else nbrs @ [v]) (adj G)\<rparr>)"

definition add_edge :: "string \<Rightarrow> string \<Rightarrow> graph \<Rightarrow> graph" where
  "add_edge u v G = add_neighbour v u (add_neighbour u v (add_node v (add_node u G)))"

fun edges_from :: "(string, string list) dict \<Rightarrow> string list \<Rightarrow> string list
                   \<Rightarrow> (string \<times> string) list" where
  "edges_from a seen [] = []"
| "edges_from a seen (n # ns) =
     map (\<lambda>nbr. (n, nbr)) (filter (\<lambda>nbr. nbr \<notin> set seen) (dict_get a n []))
     @ edges_from a (n # seen) ns"

definition edges :: "graph \<Rightarrow> (string \<times> string) list" where
  "edges G = edges_from (adj G) [] (nodes G)"

definition build_graph :: "string \<Rightarrow> graph" where
  "build_graph sql =
     (let table_map = extract_tables sql;
          G = foldl (\<lambda>G real_table. add_node real_table G) empty_graph (dict_values table_map);
          joins = extract_joins sql
      in foldl (\<lambda>G (a, b).
                  let real_a = dict_get table_map a a; real_b = dict_get table_map b b
                  in if real_a \<noteq> real_b then add_edge real_a real_b G else G)
               G joins)"

text \<open>
  \<open>graph_similarity\<close> has three exits, in this order: both edge sets empty; neither edge
  set non-empty; the quotient. \<open>graph_similarity_branch\<close> names the exit taken.
\<close>

datatype gs_branch = BothEmpty | NeitherNonEmpty | JaccardQuotient

definition graph_similarity_branch ::
  "(string \<times> string) set \<Rightarrow> (string \<times> string) set \<Rightarrow> gs_branch" where
  "graph_similarity_branch E1 E2 =
     (if E1 = {} \<and> E2 = {} then BothEmpty
      else if \<not> (E1 \<noteq> {} \<or> E2 \<noteq> {}) then NeitherNonEmpty
      else JaccardQuotient)"

definition graph_similarity :: "string \<Rightarrow> string \<Rightarrow> error + real" where
  "graph_similarity sql1 sql2 =
     (let G1 = build_graph sql1; G2 = build_graph sql2;
          E1 = set (edges G1); E2 = set (edges G2)
      in case graph_similarity_branch E1 E2 of
           BothEmpty \<Rightarrow> Inr 1
         | NeitherNonEmpty \<Rightarrow> Inr 0
         | JaccardQuotient \<Rightarrow>
             (let intersection = card (E1 \<inter> E2); union = card (E1 \<union> E2)
              in map_result round4 (py_truediv (real intersection) (real union))))"

text \<open>
  \<open>join_correctness\<close> tests \<open>j2 in j or j in j2\<close> on the tuples that \<open>re.findall\<close>
  returned. For a tuple on the right, \<open>x in t\<close> asks whether an element of \<open>t\<close> equals
  \<open>x\<close>. The elements of a join tuple are strings, and \<open>x\<close> is itself a tuple.
\<close>

datatype pyval = PStr string | PTuple "pyval list"

definition tuple_elems :: "string \<times> string \<Rightarrow> pyval list" where
  "tuple_elems j = [PStr (fst j), PStr (snd j)]"

definition tuple_val :: "string \<times> string \<Rightarrow> pyval" where
  "tuple_val j = PTuple (tuple_elems j)"

definition py_in_tuple :: "string \<times> string \<Rightarrow> string \<times> string \<Rightarrow> bool" where
  \<comment> \<open>\<open>x in t\<close> for two join tuples\<close>
  "py_in_tuple x t = (tuple_val x \<in> set (tuple_elems t))"

definition join_correctness :: "string \<Rightarrow> string \<Rightarrow> error + real" where
  "join_correctness sql1 sql2 =
     (let joins1 = extract_joins sql1; joins2 = extract_joins sql2
      in if joins1 = [] then (if joins2 = [] then Inr 1 else Inr 0)
         else
           (let matches =
                  length (filter (\<lambda>j. list_ex (\<lambda>j2. py_in_tuple j2 j \<or> py_in_tuple j j2) joins2)
                                 joins1)
            in map_result round4 (py_truediv (real matches) (real (length joins1)))))"

section \<open>Semantic evaluator: comparing execution results\<close>

text \<open>
  \<open>execute_query\<close> returns the fetched rows as a list of tuples, or \<open>None\<close> when the
  driver raised. A row is the tuple of its cells.
\<close>

datatype sql_value = SqlNull | SqlInt int | SqlStr string

type_synonym row = "sql_value list"

type_synonym execution_result = "row list option"

text \<open>
  \<open>execution_accuracy\<close>: \<open>0\<close> when either side is \<open>None\<close>, otherwise \<open>1\<close> when
  \<open>result_gold == result_gen\<close> (equality of two Python lists) and \<open>0\<close> when not.
\<close>

definition execution_accuracy :: "execution_result \<Rightarrow> execution_result \<Rightarrow> int" where
  "execution_accuracy result_gold result_gen =
     (if result_gold = None \<or> result_gen = None then 0
      else if the result_gold = the result_gen then 1 else 0)"

text \<open>\<open>r is None or not r\<close>: the failure marker or an empty list of rows.\<close>

definition none_or_empty :: "execution_result \<Rightarrow> bool" where
  "none_or_empty r = (case r of None \<Rightarrow> True | Some rows \<Rightarrow> rows = [])"

definition partial_execution_accuracy ::
  "execution_result \<Rightarrow> execution_result \<Rightarrow> error + real" where
  "partial_execution_accuracy result_gold result_gen =
     (if none_or_empty result_gold then
        (if none_or_empty result_gen then Inr 1 else Inr 0)
      else if result_gen = None then Inr 0
      else
        (let set_gold = set (the result_gold);
             set_gen = set (the result_gen);
             inter = card (set_gold \<inter> set_gen)
         in py_truediv (real inter) (real (card set_gold))))"

definition rows_gold_xy :: "row list" where
  "rows_gold_xy = [[SqlInt 1, SqlStr ''x''], [SqlInt 2, SqlStr ''y'']]"

definition rows_gen_yx :: "row list" where
  "rows_gen_yx = [[SqlInt 2, SqlStr ''y''], [SqlInt 1, SqlStr ''x'']]"

definition rows_gold_123 :: "row list" where
  "rows_gold_123 = [[SqlInt 1], [SqlInt 2], [SqlInt 3]]"

definition rows_gen_14 :: "row list" where
  "rows_gen_14 = [[SqlInt 1], [SqlInt 4]]"

section \<open>The evaluation loops\<close>

text \<open>
  The two JSON files, once loaded: the dataset gives a golden query per question, the
  generated file a generated query per question.
\<close>

record dataset_item =
  ds_question_id :: int
  ds_SQL :: string

record generated_item =
  gen_question_id :: int
  gen_SQL_generated :: string

text \<open>The dict comprehension: a later entry for the same question replaces an earlier one.\<close>

definition golden_map :: "dataset_item list \<Rightarrow> (int \<rightharpoonup> string)" where
  "golden_map dataset =
     foldl (\<lambda>m item. m(ds_question_id item \<mapsto> ds_SQL item)) Map.empty dataset"

record lexical_record =
  lr_question_id :: int
  lr_levenshtein_similarity :: real
  lr_cosine_similarity :: real
  lr_lexical_accuracy :: real
  lr_lexical_score :: real

record structural_record =
  sr_question_id :: int
  sr_tree_similarity :: real
  sr_graph_similarity :: real
  sr_join_correctness :: real
  sr_structural_score :: real

text \<open>
  One pass of the loop body of \<open>evaluate_lexical_metrics\<close>. \<open>cosine_similarity_text\<close> is
  scikit-learn's and is a parameter here; it may raise.
\<close>

definition lexical_item ::
  "(string \<Rightarrow> string \<Rightarrow> error + real) \<Rightarrow> real \<Rightarrow> real \<Rightarrow> real \<Rightarrow> int \<Rightarrow> string \<Rightarrow> string
   \<Rightarrow> error + lexical_record" where
  "lexical_item cosine_similarity_text alpha beta gamma qid gold_sql gen_sql =
     (let gen_sql_norm = normalize_sql_lexical gen_sql;
          gold_sql_norm = normalize_sql_lexical gold_sql
      in case levenshtein_similarity gold_sql_norm gen_sql_norm of
           Inl e \<Rightarrow> Inl e
         | Inr lev_sim \<Rightarrow>
          (case cosine_similarity_text gold_sql_norm gen_sql_norm of
             Inl e \<Rightarrow> Inl e
           | Inr cos_sim \<Rightarrow>
            (case lexical_accuracy gold_sql_norm gen_sql_norm of
               Inl e \<Rightarrow> Inl e
             | Inr lex_acc \<Rightarrow>
                (let lex_score = alpha * lev_sim + beta * cos_sim + gamma * lex_acc
                 in Inr \<lparr>lr_question_id = qid,
                         lr_levenshtein_similarity = round4 lev_sim,
                         lr_cosine_similarity = round4 cos_sim,
                         lr_lexical_accuracy = round4 lex_acc,
                         lr_lexical_score = round4 lex_score\<rparr>))))"

text \<open>
  The loop over the generated entries: an entry whose question has no golden query, or an
  empty one, is skipped (\<open>if not gold_sql: continue\<close>); an exception ends the run.
\<close>

fun lexical_loop ::
  "(string \<Rightarrow> string \<Rightarrow> error + real) \<Rightarrow> real \<Rightarrow> real \<Rightarrow> real \<Rightarrow> (int \<rightharpoonup> string)
   \<Rightarrow> generated_item list \<Rightarrow> error + lexical_record list" where
  "lexical_loop cs alpha beta gamma gm [] = Inr []"
| "lexical_loop cs alpha beta gamma gm (item # rest) =
     (case gm (gen_question_id item) of
        None \<Rightarrow> lexical_loop cs alpha beta gamma gm rest
      | Some gold_sql \<Rightarrow>
          if gold_sql = [] then lexical_loop cs alpha beta gamma gm rest
          else
            (case lexical_item cs alpha beta gamma (gen_question_id item) gold_sql
                    (gen_SQL_generated item) of
               Inl e \<Rightarrow> Inl e
             | Inr r \<Rightarrow> map_result (\<lambda>rs. r # rs) (lexical_loop cs alpha beta gamma gm rest)))"

text \<open>
  \<open>evaluate_lexical_metrics\<close>, from the loaded files on: the loop, then the average
  \<open>sum(...) / len(results)\<close>, then the results are written and returned. The value is the
  average that was printed and the results.
\<close>

definition evaluate_lexical_metrics ::
  "(string \<Rightarrow> string \<Rightarrow> error + real) \<Rightarrow> real \<Rightarrow> real \<Rightarrow> real
   \<Rightarrow> dataset_item list \<Rightarrow> generated_item list
   \<Rightarrow> error + (real \<times> lexical_record list)" where
  "evaluate_lexical_metrics cs alpha beta gamma dataset generated =
     (case lexical_loop cs alpha beta gamma (golden_map dataset) generated of
        Inl e \<Rightarrow> Inl e
      | Inr results \<Rightarrow>
          map_result (\<lambda>avg_score. (avg_score, results))
            (py_truediv (sum_list (map lr_lexical_score results)) (real (length results))))"

text \<open>
  The same for \<open>evaluate_structural_metrics\<close>. \<open>tree_matching_similarity\<close> is built on
  sqlparse and difflib and is a parameter here; it may raise.
\<close>

definition structural_item ::
  "(string \<Rightarrow> string \<Rightarrow> error + real) \<Rightarrow> real \<Rightarrow> real \<Rightarrow> real \<Rightarrow> int \<Rightarrow> string \<Rightarrow> string
   \<Rightarrow> error + structural_record" where
  "structural_item tree_matching_similarity alpha beta gamma qid gold_sql gen_sql =
     (let gen_sql_norm = normalize_sql_struct gen_sql;
          gold_sql_norm = normalize_sql_struct gold_sql
      in case tree_matching_similarity gold_sql_norm gen_sql_norm of
           Inl e \<Rightarrow> Inl e
         | Inr tree_sim \<Rightarrow>
          (case graph_similarity gold_sql_norm gen_sql_norm of
             Inl e \<Rightarrow> Inl e
           | Inr graph_sim \<Rightarrow>
            (case join_correctness gold_sql_norm gen_sql_norm of
               Inl e \<Rightarrow> Inl e
             | Inr join_acc \<Rightarrow>
                (let struct_score =
                       round4 (alpha * tree_sim + beta * graph_sim + gamma * join_acc)
                 in Inr \<lparr>sr_question_id = qid,
                         sr_tree_similarity = tree_sim,
                         sr_graph_similarity = graph_sim,
                         sr_join_correctness = join_acc,
                         sr_structural_score = struct_score\<rparr>))))"

fun structural_loop ::
  "(string \<Rightarrow> string \<Rightarrow> error + real) \<Rightarrow> real \<Rightarrow> real \<Rightarrow> real \<Rightarrow> (int \<rightharpoonup> string)
   \<Rightarrow> generated_item list \<Rightarrow> error + structural_record list" where
  "structural_loop ts alpha beta gamma gm [] = Inr []"
| "structural_loop ts alpha beta gamma gm (item # rest) =
     (case gm (gen_question_id item) of
        None \<Rightarrow> structural_loop ts alpha beta gamma gm rest
      | Some gold_sql \<Rightarrow>
          if gold_sql = [] then structural_loop ts alpha beta gamma gm rest
          else
            (case structural_item ts alpha beta gamma (gen_question_id item) gold_sql
                    (gen_SQL_generated item) of
               Inl e \<Rightarrow> Inl e
             | Inr r \<Rightarrow>
                 map_result (\<lambda>rs. r # rs) (structural_loop ts alpha beta gamma gm rest)))"

definition evaluate_structural_metrics ::
  "(string \<Rightarrow> string \<Rightarrow> error + real) \<Rightarrow> real \<Rightarrow> real \<Rightarrow> real
   \<Rightarrow> dataset_item list \<Rightarrow> generated_item list
   \<Rightarrow> error + (real \<times> structural_record list)" where
  "evaluate_structural_metrics ts alpha beta gamma dataset generated =
     (case structural_loop ts alpha beta gamma (golden_map dataset) generated of
        Inl e \<Rightarrow> Inl e
      | Inr results \<Rightarrow>
          map_result (\<lambda>avg_score. (avg_score, results))
            (py_truediv (sum_list (map sr_structural_score results))
               (real (length results))))"

section \<open>Auxiliary functions for the properties of the normalizers\<close>

text \<open>
  These are not functions of the source. \<open>collapse_from\<close> describes the whitespace step
  of the normalizers character by character (the flag says that the character before was
  whitespace); it is proved equal to the substitution below. \<open>has_substring w s\<close> says
  that \<open>w\<close> occurs in \<open>s\<close>.
\<close>

fun collapse_from :: "bool \<Rightarrow> string \<Rightarrow> string" where
  "collapse_from b [] = []"
| "collapse_from b (c # cs) =
     (if is_space c then (if b then collapse_from True cs else CHR '' '' # collapse_from True cs)
      else c # collapse_from False cs)"

fun starts_with :: "string \<Rightarrow> string \<Rightarrow> bool" where
  "starts_with [] s = True"
| "starts_with (w # ws) [] = False"
| "starts_with (w # ws) (c # cs) = (w = c \<and> starts_with ws cs)"

fun has_substring :: "string \<Rightarrow> string \<Rightarrow> bool" where
  "has_substring w [] = starts_with w []"
| "has_substring w (c # cs) = (starts_with w (c # cs) \<or> has_substring w cs)"


section \<open>Example queries\<close>

text \<open>The queries named in the examples of the properties below.\<close>

definition query_a_join_b :: string where
  "query_a_join_b = ''select * from a join b on a.id = b.id''"

definition query_b_join_a :: string where
  "query_b_join_a = ''select * from b join a on a.id = b.id''"

definition query_b_join_a_reversed :: string where
  "query_b_join_a_reversed = ''select * from b join a on b.id = a.id''"

definition query_three_edges :: string where
  "query_three_edges = ''select * from a join b on a.id = b.id and a.y = c.y and b.z = c.z''"

definition undirected :: "string \<times> string \<Rightarrow> string set" where
  "undirected e = {fst e, snd e}"

definition dataset_one :: "dataset_item list" where
  "dataset_one = [\<lparr>ds_question_id = 1, ds_SQL = ''select a from t''\<rparr>]"

definition generated_other :: "generated_item list" where
  "generated_other = [\<lparr>gen_question_id = 2, gen_SQL_generated = ''select a from t''\<rparr>]"

definition constant_score :: "string \<Rightarrow> string \<Rightarrow> error + real" where
  "constant_score a b = Inr 1"

section \<open>Properties of the semantic evaluator\<close>

lemma py_truediv_pos: "0 < b \<Longrightarrow> py_truediv a b = Inr (a / b)"
  by (simp add: py_truediv_def)

lemma card_set_pos: "xs \<noteq> [] \<Longrightarrow> 0 < card (set xs)"
  by (simp add: card_gt_0_iff)

text \<open>
  C1, as the specification states it, fails: the two row lists of the specification's own
  example hold the same rows in another order, and \<open>execution_accuracy\<close> returns \<open>0\<close>
  for them, because it compares the lists and not their sets of rows.
\<close>

theorem execution_accuracy_order_counterexample:
  "set rows_gold_xy = set rows_gen_yx
   \<and> execution_accuracy (Some rows_gold_xy) (Some rows_gen_yx) = 0"
  by (auto simp: rows_gold_xy_def rows_gen_yx_def execution_accuracy_def)

text \<open>
  C1, amended: \<open>execution_accuracy\<close> returns \<open>1\<close> exactly when both executions
  succeeded and returned the same list of rows (the same rows, in the same order, with the
  same repetitions), and \<open>0\<close> in every other case, in particular whenever either side is
  the failure marker.
\<close>

theorem execution_accuracy_list_equality:
  "(execution_accuracy gold gen = 1 \<longleftrightarrow> (\<exists>rows. gold = Some rows \<and> gen = Some rows))
   \<and> (execution_accuracy gold gen \<noteq> 1 \<longrightarrow> execution_accuracy gold gen = 0)
   \<and> (gold = None \<or> gen = None \<longrightarrow> execution_accuracy gold gen = 0)"
  by (cases gold; cases gen) (auto simp: execution_accuracy_def)

theorem execution_accuracy_list_equality_witness:
  "execution_accuracy (Some rows_gold_xy) (Some rows_gold_xy) = 1
   \<and> execution_accuracy (Some rows_gold_xy) (Some rows_gen_yx) = 0
   \<and> execution_accuracy None (Some rows_gen_yx) = 0"
proof -
  have a: "execution_accuracy (Some rows_gold_xy) (Some rows_gold_xy) = 1"
    using execution_accuracy_list_equality [of "Some rows_gold_xy" "Some rows_gold_xy"]
    by simp
  have ne: "rows_gold_xy \<noteq> rows_gen_yx"
    by (simp add: rows_gold_xy_def rows_gen_yx_def)
  have b: "execution_accuracy (Some rows_gold_xy) (Some rows_gen_yx) = 0"
    using execution_accuracy_list_equality [of "Some rows_gold_xy" "Some rows_gen_yx"] ne
    by simp
  have c: "execution_accuracy None (Some rows_gen_yx) = 0"
    using execution_accuracy_list_equality [of None "Some rows_gen_yx"] by simp
  from a b c show ?thesis by simp
qed

text \<open>
  C5, as the specification states it, fails when gold succeeded with no row and the
  generated query failed: the claim gives \<open>0\<close> there (the generated side failed while
  gold succeeded), and \<open>partial_execution_accuracy\<close> returns \<open>1\<close>, because the test for
  an empty or failed gold comes first.
\<close>

theorem partial_execution_accuracy_empty_gold_counterexample:
  "partial_execution_accuracy (Some []) None = Inr 1
   \<and> partial_execution_accuracy (Some []) None \<noteq> Inr 0"
  by (simp add: partial_execution_accuracy_def none_or_empty_def)

text \<open>
  C5, amended: \<open>partial_execution_accuracy\<close> never raises. When gold failed or is empty
  the score is \<open>1\<close> if the generated side failed or is empty too and \<open>0\<close> if not; when
  gold has at least one row and the generated side failed it is \<open>0\<close>; otherwise it is the
  number of distinct gold rows also returned by the generated query, divided by the number
  of distinct gold rows. For gold rows \<open>(1,), (2,), (3,)\<close> and generated rows
  \<open>(1,), (4,)\<close> it is \<open>1/3\<close>.
\<close>

theorem partial_execution_accuracy_spec:
  "(none_or_empty gold \<longrightarrow>
      partial_execution_accuracy gold gen = Inr (if none_or_empty gen then 1 else 0))
   \<and> (\<not> none_or_empty gold \<and> gen = None \<longrightarrow> partial_execution_accuracy gold gen = Inr 0)
   \<and> (\<forall>g h. gold = Some g \<and> g \<noteq> [] \<and> gen = Some h \<longrightarrow>
        partial_execution_accuracy gold gen
          = Inr (real (card (set g \<inter> set h)) / real (card (set g))))
   \<and> partial_execution_accuracy (Some rows_gold_123) (Some rows_gen_14) = Inr (1 / 3)"
proof (intro conjI allI impI)
  assume "none_or_empty gold"
  then show "partial_execution_accuracy gold gen = Inr (if none_or_empty gen then 1 else 0)"
    by (simp add: partial_execution_accuracy_def)
next
  assume "\<not> none_or_empty gold \<and> gen = None"
  then show "partial_execution_accuracy gold gen = Inr 0"
    by (simp add: partial_execution_accuracy_def)
next
  fix g h
  assume a: "gold = Some g \<and> g \<noteq> [] \<and> gen = Some h"
  then have "0 < real (card (set g))"
    using card_set_pos [of g] by simp
  with a show "partial_execution_accuracy gold gen
      = Inr (real (card (set g \<inter> set h)) / real (card (set g)))"
    by (simp add: partial_execution_accuracy_def none_or_empty_def py_truediv_pos Let_def)
next
  have i: "set rows_gold_123 \<inter> set rows_gen_14 = {[SqlInt 1]}"
    by (auto simp: rows_gold_123_def rows_gen_14_def)
  have c: "card (set rows_gold_123) = 3"
    by (simp add: rows_gold_123_def)
  show "partial_execution_accuracy (Some rows_gold_123) (Some rows_gen_14) = Inr (1 / 3)"
    by (simp add: partial_execution_accuracy_def none_or_empty_def Let_def i c py_truediv_def)
       (simp add: rows_gold_123_def)
qed

theorem partial_execution_accuracy_spec_witness:
  "partial_execution_accuracy None (Some []) = Inr 1
   \<and> partial_execution_accuracy (Some []) None = Inr 1
   \<and> partial_execution_accuracy (Some []) (Some rows_gen_14) = Inr 0
   \<and> partial_execution_accuracy (Some rows_gold_123) None = Inr 0
   \<and> partial_execution_accuracy (Some rows_gold_123) (Some rows_gold_123) = Inr 1"
proof -
  have ne: "rows_gold_123 \<noteq> []" "rows_gen_14 \<noteq> []"
    by (simp_all add: rows_gold_123_def rows_gen_14_def)
  have a: "partial_execution_accuracy None (Some []) = Inr 1"
    using partial_execution_accuracy_spec [of None "Some []"]
    by (simp add: none_or_empty_def)
  have a2: "partial_execution_accuracy (Some []) None = Inr 1"
    using partial_execution_accuracy_spec [of "Some []" None]
    by (simp add: none_or_empty_def)
  have b: "partial_execution_accuracy (Some []) (Some rows_gen_14) = Inr 0"
    using partial_execution_accuracy_spec [of "Some []" "Some rows_gen_14"] ne
    by (simp add: none_or_empty_def)
  have c: "partial_execution_accuracy (Some rows_gold_123) None = Inr 0"
    using partial_execution_accuracy_spec [of "Some rows_gold_123" None] ne
    by (simp add: none_or_empty_def)
  have "0 < card (set rows_gold_123)"
    using ne card_set_pos by blast
  then have d: "partial_execution_accuracy (Some rows_gold_123) (Some rows_gold_123) = Inr 1"
    using partial_execution_accuracy_spec [of "Some rows_gold_123" "Some rows_gold_123"] ne
    by simp
  from a a2 b c d show ?thesis by simp
qed

section \<open>Properties of the lexical evaluator\<close>

lemma map_result_Inr: "map_result f (Inr x) = Inr (f x)"
  by (simp add: map_result_def)

lemma levenshtein_distance_same: "levenshtein_distance a a = 0"
  by (induction a) simp_all

text \<open>
  C7, as the specification states it, fails on the empty string: two identical empty
  strings have similarity \<open>0\<close>, not \<open>1\<close>, because of the guard \<open>if not a or not b\<close>.
\<close>

theorem levenshtein_similarity_empty_counterexample:
  "levenshtein_similarity [] [] = Inr 0 \<and> levenshtein_similarity [] [] \<noteq> Inr 1"
  by (simp add: levenshtein_similarity_def)

text \<open>
  C7, amended: \<open>levenshtein_similarity\<close> never raises; it is \<open>0\<close> whenever either string
  is empty, it is \<open>1 - distance / max(len(a), len(b))\<close> for two non-empty strings, and it
  is \<open>1\<close> for every pair of identical non-empty strings.
\<close>

theorem levenshtein_similarity_spec:
  "(a = [] \<or> b = [] \<longrightarrow> levenshtein_similarity a b = Inr 0)
   \<and> (a \<noteq> [] \<and> b \<noteq> [] \<longrightarrow>
        levenshtein_similarity a b
          = Inr (1 - real (levenshtein_distance a b) / real (max (length a) (length b))))
   \<and> (a \<noteq> [] \<longrightarrow> levenshtein_similarity a a = Inr 1)"
proof (intro conjI impI)
  assume "a = [] \<or> b = []"
  then show "levenshtein_similarity a b = Inr 0"
    by (auto simp: levenshtein_similarity_def)
next
  assume ne: "a \<noteq> [] \<and> b \<noteq> []"
  then have "0 < max (length a) (length b)" by (cases a) simp_all
  then have "0 < real (max (length a) (length b))" by linarith
  then have "py_truediv (real (levenshtein_distance a b)) (real (max (length a) (length b)))
      = Inr (real (levenshtein_distance a b) / real (max (length a) (length b)))"
    by (rule py_truediv_pos)
  with ne show "levenshtein_similarity a b
      = Inr (1 - real (levenshtein_distance a b) / real (max (length a) (length b)))"
    by (simp add: levenshtein_similarity_def map_result_Inr)
next
  assume ne: "a \<noteq> []"
  then have "0 < max (length a) (length a)" by simp
  then have "0 < real (max (length a) (length a))" by linarith
  then have "py_truediv (real (levenshtein_distance a a)) (real (max (length a) (length a)))
      = Inr (real (levenshtein_distance a a) / real (max (length a) (length a)))"
    by (rule py_truediv_pos)
  with ne show "levenshtein_similarity a a = Inr 1"
    by (simp add: levenshtein_similarity_def map_result_Inr levenshtein_distance_same)
qed

theorem levenshtein_similarity_spec_witness:
  "levenshtein_similarity ''select a'' [] = Inr 0
   \<and> levenshtein_similarity ''cat'' ''cut'' = Inr (1 - 1 / 3)
   \<and> levenshtein_similarity ''select a'' ''select a'' = Inr 1"
proof -
  have a: "levenshtein_similarity ''select a'' [] = Inr 0"
    using levenshtein_similarity_spec [of "''select a''" "[]"] by blast
  have d: "levenshtein_distance ''cat'' ''cut'' = 1"
    by simp
  have ne: "''cat'' \<noteq> [] \<and> ''cut'' \<noteq> []"
    by simp
  have "levenshtein_similarity ''cat'' ''cut''
      = Inr (1 - real (levenshtein_distance ''cat'' ''cut'')
                 / real (max (length ''cat'') (length ''cut'')))"
    using levenshtein_similarity_spec [of "''cat''" "''cut''"] ne by blast
  then have b: "levenshtein_similarity ''cat'' ''cut'' = Inr (1 - 1 / 3)"
    by (simp only: d) simp
  have ne2: "''select a'' \<noteq> []"
    by simp
  have c: "levenshtein_similarity ''select a'' ''select a'' = Inr 1"
    using levenshtein_similarity_spec [of "''select a''" "''select a''"] ne2 by blast
  from a b c show ?thesis by blast
qed

text \<open>
  C6, as the specification states it, fails when the golden query has no attribute: the
  generated attribute set is then a superset of the golden one, and the score is \<open>0\<close>,
  not \<open>1\<close>, because of the guard \<open>if not attrs_gold\<close>.
\<close>

theorem lexical_accuracy_empty_gold_counterexample:
  "set (extract_attributes ''select'') \<subseteq> set (extract_attributes ''select a'')
   \<and> lexical_accuracy ''select'' ''select a'' = Inr 0"
  by code_simp

text \<open>
  C6, amended: \<open>lexical_accuracy\<close> never raises; it is \<open>0\<close> when the golden query has
  no attribute and otherwise the number of golden attributes that are also attributes of
  the generated query, divided by the number of golden attributes. It is \<open>1\<close> whenever
  the golden attribute set is non-empty and the generated one is a superset of it, and
  \<open>0\<close> whenever the golden set is non-empty and the two sets are disjoint.
\<close>

theorem lexical_accuracy_spec:
  "lexical_accuracy gold gen
     = Inr (if set (extract_attributes gold) = {} then 0
            else real (card (set (extract_attributes gold) \<inter> set (extract_attributes gen)))
                 / real (card (set (extract_attributes gold))))
   \<and> (set (extract_attributes gold) \<noteq> {}
        \<and> set (extract_attributes gold) \<subseteq> set (extract_attributes gen)
        \<longrightarrow> lexical_accuracy gold gen = Inr 1)
   \<and> (set (extract_attributes gold) \<noteq> {}
        \<and> set (extract_attributes gold) \<inter> set (extract_attributes gen) = {}
        \<longrightarrow> lexical_accuracy gold gen = Inr 0)"
proof -
  let ?A = "set (extract_attributes gold)"
  let ?B = "set (extract_attributes gen)"
  have pos: "?A \<noteq> {} \<Longrightarrow> 0 < real (card ?A)"
    by (simp add: card_gt_0_iff)
  have eq: "lexical_accuracy gold gen
      = Inr (if ?A = {} then 0 else real (card (?A \<inter> ?B)) / real (card ?A))"
  proof (cases "?A = {}")
    case True
    then show ?thesis by (simp add: lexical_accuracy_def)
  next
    case False
    then have "py_truediv (real (card (?A \<inter> ?B))) (real (card ?A))
        = Inr (real (card (?A \<inter> ?B)) / real (card ?A))"
      using pos py_truediv_pos by blast
    with False show ?thesis by (simp add: lexical_accuracy_def Let_def)
  qed
  have sup: "lexical_accuracy gold gen = Inr 1" if "?A \<noteq> {} \<and> ?A \<subseteq> ?B"
  proof -
    from that have "?A \<inter> ?B = ?A" by blast
    with that pos show ?thesis by (simp add: eq)
  qed
  have dis: "lexical_accuracy gold gen = Inr 0" if "?A \<noteq> {} \<and> ?A \<inter> ?B = {}"
    using that by (simp add: eq)
  from eq sup dis show ?thesis by blast
qed

lemma attrs_a_b_t: "extract_attributes ''select a, b from t'' = [''a'', ''b'', ''t'']"
  by code_simp

lemma attrs_b_a_c_t:
  "extract_attributes ''select b, a, c from t'' = [''b'', ''a'', ''c'', ''t'']"
  by code_simp

lemma attrs_a_t: "extract_attributes ''select a from t'' = [''a'', ''t'']"
  by code_simp

lemma attrs_b_u: "extract_attributes ''select b from u'' = [''b'', ''u'']"
  by code_simp

theorem lexical_accuracy_spec_witness:
  "lexical_accuracy ''select a, b from t'' ''select b, a, c from t'' = Inr 1
   \<and> lexical_accuracy ''select a from t'' ''select b from u'' = Inr 0"
proof -
  have a: "lexical_accuracy ''select a, b from t'' ''select b, a, c from t'' = Inr 1"
    using lexical_accuracy_spec [of "''select a, b from t''" "''select b, a, c from t''"]
    by (simp add: attrs_a_b_t attrs_b_a_c_t)
  have b: "lexical_accuracy ''select a from t'' ''select b from u'' = Inr 0"
    using lexical_accuracy_spec [of "''select a from t''" "''select b from u''"]
    by (simp add: attrs_a_t attrs_b_u)
  from a b show ?thesis by simp
qed

section \<open>Properties of the structural evaluator\<close>

lemma round_half_even_bounds:
  assumes "0 \<le> y" "y \<le> of_int n"
  shows "0 \<le> round_half_even y \<and> round_half_even y \<le> n"
proof -
  have f0: "0 \<le> \<lfloor>y\<rfloor>" using assms(1) by simp
  show ?thesis
  proof (cases "y = of_int n")
    case True
    then show ?thesis using f0 by (simp add: round_half_even_def)
  next
    case False
    with assms(2) have "y < of_int n" by simp
    then have "\<lfloor>y\<rfloor> < n" by (simp add: floor_less_iff)
    then show ?thesis using f0 by (auto simp: round_half_even_def Let_def)
  qed
qed

lemma round4_unit: "0 \<le> x \<Longrightarrow> x \<le> 1 \<Longrightarrow> 0 \<le> round4 x \<and> round4 x \<le> 1"
  using round_half_even_bounds [of "x * 10000" 10000]
  by (simp add: round4_def)

lemma round4_0: "round4 0 = 0"
  by (simp add: round4_def round_half_even_def)

lemma jaccard_unit:
  assumes "finite A" "finite B" "A \<union> B \<noteq> {}"
  shows "0 \<le> real (card (A \<inter> B)) / real (card (A \<union> B))
         \<and> real (card (A \<inter> B)) / real (card (A \<union> B)) \<le> 1"
proof -
  have "card (A \<inter> B) \<le> card (A \<union> B)"
    using assms by (intro card_mono) auto
  moreover have "0 < card (A \<union> B)"
    using assms by (simp add: card_gt_0_iff)
  ultimately show ?thesis by simp
qed

lemma graph_similarity_branch_cases:
  "graph_similarity_branch E1 E2 = (if E1 = {} \<and> E2 = {} then BothEmpty else JaccardQuotient)"
  by (auto simp: graph_similarity_branch_def)

lemma jaccard_exit:
  assumes "finite E1" "finite E2"
  shows "(case graph_similarity_branch E1 E2 of
            BothEmpty \<Rightarrow> Inr 1
          | NeitherNonEmpty \<Rightarrow> Inr 0
          | JaccardQuotient \<Rightarrow>
              map_result round4 (py_truediv (real (card (E1 \<inter> E2))) (real (card (E1 \<union> E2)))))
       = (if E1 = {} \<and> E2 = {} then Inr 1
          else Inr (round4 (real (card (E1 \<inter> E2)) / real (card (E1 \<union> E2)))))"
proof (cases "E1 = {} \<and> E2 = {}")
  case True
  then show ?thesis by (simp add: graph_similarity_branch_cases)
next
  case False
  then have "E1 \<union> E2 \<noteq> {}" by blast
  with assms have "0 < real (card (E1 \<union> E2))"
    by (simp add: card_gt_0_iff)
  then have "py_truediv (real (card (E1 \<inter> E2))) (real (card (E1 \<union> E2)))
      = Inr (real (card (E1 \<inter> E2)) / real (card (E1 \<union> E2)))"
    by (rule py_truediv_pos)
  with False show ?thesis
    by (simp only: graph_similarity_branch_cases map_result_Inr if_False gs_branch.case)
qed

lemma graph_similarity_eq:
  "graph_similarity sql1 sql2 =
     (if set (edges (build_graph sql1)) = {} \<and> set (edges (build_graph sql2)) = {} then Inr 1
      else Inr (round4 (real (card (set (edges (build_graph sql1)) \<inter> set (edges (build_graph sql2))))
                       / real (card (set (edges (build_graph sql1)) \<union> set (edges (build_graph sql2)))))))"
  unfolding graph_similarity_def Let_def
  by (rule jaccard_exit) simp_all

text \<open>What the extractors find in the example queries.\<close>

lemma tables_a_join_b: "extract_tables query_a_join_b = [(''a'', ''a''), (''b'', ''b'')]"
  by code_simp

lemma joins_a_join_b: "extract_joins query_a_join_b = [(''a'', ''b'')]"
  by code_simp

lemma tables_b_join_a: "extract_tables query_b_join_a = [(''b'', ''b''), (''a'', ''a'')]"
  by code_simp

lemma joins_b_join_a: "extract_joins query_b_join_a = [(''a'', ''b'')]"
  by code_simp

lemma joins_b_join_a_reversed: "extract_joins query_b_join_a_reversed = [(''b'', ''a'')]"
  by code_simp

lemmas graph_eval = build_graph_def dict_values_def dict_get_def empty_graph_def add_node_def
  add_edge_def add_neighbour_def edges_def Let_def

lemma edges_a_join_b: "edges (build_graph query_a_join_b) = [(''a'', ''b'')]"
  by (simp add: graph_eval tables_a_join_b joins_a_join_b)

lemma nodes_a_join_b: "nodes (build_graph query_a_join_b) = [''a'', ''b'']"
  by (simp add: graph_eval tables_a_join_b joins_a_join_b)

lemma edges_b_join_a: "edges (build_graph query_b_join_a) = [(''b'', ''a'')]"
  by (simp add: graph_eval tables_b_join_a joins_b_join_a)

lemma nodes_b_join_a: "nodes (build_graph query_b_join_a) = [''b'', ''a'']"
  by (simp add: graph_eval tables_b_join_a joins_b_join_a)

text \<open>
  C10: the exit \<open>NeitherNonEmpty\<close> of \<open>graph_similarity\<close> is never taken; when the
  quotient is computed the union of the two edge sets has at least one element, so the
  division does not raise; and \<open>graph_similarity\<close> returns a number between \<open>0\<close> and \<open>1\<close>.
\<close>

theorem graph_similarity_never_divides_by_zero:
  "graph_similarity_branch (set (edges (build_graph sql1))) (set (edges (build_graph sql2)))
     \<noteq> NeitherNonEmpty
   \<and> (graph_similarity_branch (set (edges (build_graph sql1))) (set (edges (build_graph sql2)))
        = JaccardQuotient
      \<longrightarrow> 0 < card (set (edges (build_graph sql1)) \<union> set (edges (build_graph sql2))))
   \<and> (\<exists>r. graph_similarity sql1 sql2 = Inr r \<and> 0 \<le> r \<and> r \<le> 1)"
proof -
  let ?E1 = "set (edges (build_graph sql1))"
  let ?E2 = "set (edges (build_graph sql2))"
  have a: "graph_similarity_branch ?E1 ?E2 \<noteq> NeitherNonEmpty"
    by (simp add: graph_similarity_branch_cases)
  have b: "0 < card (?E1 \<union> ?E2)" if "graph_similarity_branch ?E1 ?E2 = JaccardQuotient"
  proof -
    from that have "?E1 \<union> ?E2 \<noteq> {}"
      by (auto simp: graph_similarity_branch_cases split: if_splits)
    then show ?thesis by (simp add: card_gt_0_iff)
  qed
  have c: "\<exists>r. graph_similarity sql1 sql2 = Inr r \<and> 0 \<le> r \<and> r \<le> 1"
  proof (cases "?E1 = {} \<and> ?E2 = {}")
    case True
    then show ?thesis by (simp add: graph_similarity_eq)
  next
    case False
    then have "?E1 \<union> ?E2 \<noteq> {}" by blast
    then have "0 \<le> real (card (?E1 \<inter> ?E2)) / real (card (?E1 \<union> ?E2))
         \<and> real (card (?E1 \<inter> ?E2)) / real (card (?E1 \<union> ?E2)) \<le> 1"
      by (intro jaccard_unit) simp_all
    then have "0 \<le> round4 (real (card (?E1 \<inter> ?E2)) / real (card (?E1 \<union> ?E2)))
         \<and> round4 (real (card (?E1 \<inter> ?E2)) / real (card (?E1 \<union> ?E2))) \<le> 1"
      using round4_unit by blast
    with False show ?thesis by (simp add: graph_similarity_eq)
  qed
  from a b c show ?thesis by blast
qed

theorem graph_similarity_never_divides_by_zero_witness:
  "graph_similarity_branch (set (edges (build_graph query_a_join_b)))
       (set (edges (build_graph query_three_edges))) = JaccardQuotient
   \<and> 0 < card (set (edges (build_graph query_a_join_b))
               \<union> set (edges (build_graph query_three_edges)))
   \<and> (\<exists>r. graph_similarity query_a_join_b query_three_edges = Inr r \<and> 0 \<le> r \<and> r \<le> 1)"
proof -
  have br: "graph_similarity_branch (set (edges (build_graph query_a_join_b)))
       (set (edges (build_graph query_three_edges))) = JaccardQuotient"
    by (simp add: graph_similarity_branch_cases edges_a_join_b)
  from graph_similarity_never_divides_by_zero [of query_a_join_b query_three_edges] br
  show ?thesis by blast
qed

text \<open>
  C4: the code at the failing input. The queries \<open>a join b\<close> and \<open>b join a\<close> have the
  same nodes and the same edge between them, so their join graphs are identical as
  undirected graphs and the similarity should be \<open>1\<close>; \<open>graph_similarity\<close> returns
  \<open>0\<close>, because the edge is listed as \<open>(a, b)\<close> for one query and as \<open>(b, a)\<close> for
  the other and the two lists are compared as sets of ordered pairs.
\<close>

theorem graph_similarity_orientation:
  "set (nodes (build_graph query_a_join_b)) = set (nodes (build_graph query_b_join_a))
   \<and> undirected ` set (edges (build_graph query_a_join_b))
       = undirected ` set (edges (build_graph query_b_join_a))
   \<and> edges (build_graph query_a_join_b) = [(''a'', ''b'')]
   \<and> edges (build_graph query_b_join_a) = [(''b'', ''a'')]
   \<and> graph_similarity query_a_join_b query_b_join_a = Inr 0"
proof -
  have ns: "set (nodes (build_graph query_a_join_b)) = set (nodes (build_graph query_b_join_a))"
    unfolding nodes_a_join_b nodes_b_join_a by auto
  have ud: "undirected ` set (edges (build_graph query_a_join_b))
       = undirected ` set (edges (build_graph query_b_join_a))"
    unfolding edges_a_join_b edges_b_join_a by (auto simp: undirected_def)
  have i: "set [(''a'', ''b'')] \<inter> set [(''b'', ''a'')] = ({} :: (string \<times> string) set)"
    by auto
  have g1: "graph_similarity query_a_join_b query_b_join_a = Inr 0"
    unfolding graph_similarity_eq edges_a_join_b edges_b_join_a i
    by (simp add: round4_0)
  from ns ud g1 edges_a_join_b edges_b_join_a show ?thesis by blast
qed

lemma py_in_tuple_never: "\<not> py_in_tuple x t"
  by (simp add: py_in_tuple_def tuple_val_def tuple_elems_def)

lemma join_correctness_with_joins:
  assumes "extract_joins sql1 \<noteq> []"
  shows "join_correctness sql1 sql2 = Inr 0"
proof -
  have "0 < real (length (extract_joins sql1))"
    using assms by simp
  then have "py_truediv 0 (real (length (extract_joins sql1))) = Inr 0"
    by (simp add: py_truediv_def)
  with assms show ?thesis
    by (simp add: join_correctness_def Let_def py_in_tuple_never list_ex_iff map_result_Inr
        round4_0)
qed

text \<open>
  C2: the code at the failing inputs. A query with the join pair \<open>(a, b)\<close> scores \<open>0\<close>
  against itself and \<open>0\<close> against a query with the pair \<open>(b, a)\<close>: \<open>j2 in j\<close> looks for
  the tuple \<open>j2\<close> among the two strings of \<open>j\<close> and never finds it.
\<close>

theorem join_correctness_never_matches:
  "extract_joins query_a_join_b = [(''a'', ''b'')]
   \<and> extract_joins query_b_join_a_reversed = [(''b'', ''a'')]
   \<and> join_correctness query_a_join_b query_a_join_b = Inr 0
   \<and> join_correctness query_a_join_b query_b_join_a_reversed = Inr 0"
proof -
  have ne: "extract_joins query_a_join_b \<noteq> []"
    by (simp add: joins_a_join_b)
  from joins_a_join_b joins_b_join_a_reversed join_correctness_with_joins [OF ne]
  show ?thesis by blast
qed

section \<open>Properties of the evaluation loops\<close>

lemma lexical_loop_unjoined:
  assumes "\<forall>item \<in> set generated. gm (gen_question_id item) = None
             \<or> gm (gen_question_id item) = Some []"
  shows "lexical_loop cs alpha beta gamma gm generated = Inr []"
  using assms by (induction generated) auto

lemma structural_loop_unjoined:
  assumes "\<forall>item \<in> set generated. gm (gen_question_id item) = None
             \<or> gm (gen_question_id item) = Some []"
  shows "structural_loop ts alpha beta gamma gm generated = Inr []"
  using assms by (induction generated) auto

lemma lexical_empty_results:
  assumes "lexical_loop cs alpha beta gamma (golden_map dataset) generated = Inr []"
  shows "evaluate_lexical_metrics cs alpha beta gamma dataset generated = Inl ZeroDivisionError"
  using assms by (simp add: evaluate_lexical_metrics_def py_truediv_def map_result_def)

lemma structural_empty_results:
  assumes "structural_loop ts alpha beta gamma (golden_map dataset) generated = Inr []"
  shows "evaluate_structural_metrics ts alpha beta gamma dataset generated
         = Inl ZeroDivisionError"
  using assms by (simp add: evaluate_structural_metrics_def py_truediv_def map_result_def)

text \<open>
  C9: when the list of per-question results is empty, both evaluation functions raise
  \<open>ZeroDivisionError\<close> at the average and return no report; this is the case in
  particular when no generated entry has a golden query.
\<close>

theorem empty_results_raise:
  "(lexical_loop cs alpha beta gamma (golden_map dataset) generated = Inr []
      \<longrightarrow> evaluate_lexical_metrics cs alpha beta gamma dataset generated
            = Inl ZeroDivisionError)
   \<and> (structural_loop ts alpha beta gamma (golden_map dataset) generated = Inr []
      \<longrightarrow> evaluate_structural_metrics ts alpha beta gamma dataset generated
            = Inl ZeroDivisionError)
   \<and> ((\<forall>item \<in> set generated.
          golden_map dataset (gen_question_id item) = None
          \<or> golden_map dataset (gen_question_id item) = Some [])
      \<longrightarrow> evaluate_lexical_metrics cs alpha beta gamma dataset generated
            = Inl ZeroDivisionError
          \<and> evaluate_structural_metrics ts alpha beta gamma dataset generated
            = Inl ZeroDivisionError)"
proof (intro conjI impI)
  assume "lexical_loop cs alpha beta gamma (golden_map dataset) generated = Inr []"
  then show "evaluate_lexical_metrics cs alpha beta gamma dataset generated
      = Inl ZeroDivisionError"
    by (rule lexical_empty_results)
next
  assume "structural_loop ts alpha beta gamma (golden_map dataset) generated = Inr []"
  then show "evaluate_structural_metrics ts alpha beta gamma dataset generated
      = Inl ZeroDivisionError"
    by (rule structural_empty_results)
next
  assume u: "\<forall>item \<in> set generated.
      golden_map dataset (gen_question_id item) = None
      \<or> golden_map dataset (gen_question_id item) = Some []"
  show "evaluate_lexical_metrics cs alpha beta gamma dataset generated
      = Inl ZeroDivisionError"
    by (rule lexical_empty_results) (rule lexical_loop_unjoined [OF u])
next
  assume u: "\<forall>item \<in> set generated.
      golden_map dataset (gen_question_id item) = None
      \<or> golden_map dataset (gen_question_id item) = Some []"
  show "evaluate_structural_metrics ts alpha beta gamma dataset generated
      = Inl ZeroDivisionError"
    by (rule structural_empty_results) (rule structural_loop_unjoined [OF u])
qed

theorem empty_results_raise_witness:
  "evaluate_lexical_metrics constant_score (3 / 10) (4 / 10) (3 / 10) dataset_one generated_other
     = Inl ZeroDivisionError
   \<and> evaluate_structural_metrics constant_score (7 / 10) (15 / 100) (15 / 100) dataset_one
       generated_other = Inl ZeroDivisionError
   \<and> evaluate_lexical_metrics constant_score (3 / 10) (4 / 10) (3 / 10) dataset_one []
     = Inl ZeroDivisionError"
proof -
  have u: "\<forall>item \<in> set generated_other.
      golden_map dataset_one (gen_question_id item) = None
      \<or> golden_map dataset_one (gen_question_id item) = Some []"
    by (simp add: generated_other_def dataset_one_def golden_map_def)
  have l0: "lexical_loop constant_score (3 / 10) (4 / 10) (3 / 10) (golden_map dataset_one) []
      = Inr []"
    by simp
  from empty_results_raise [of constant_score "3 / 10" "4 / 10" "3 / 10" dataset_one
      generated_other constant_score] u
  have a: "evaluate_lexical_metrics constant_score (3 / 10) (4 / 10) (3 / 10) dataset_one
      generated_other = Inl ZeroDivisionError"
    by blast
  from empty_results_raise [of constant_score "7 / 10" "15 / 100" "15 / 100" dataset_one
      generated_other constant_score] u
  have b: "evaluate_structural_metrics constant_score (7 / 10) (15 / 100) (15 / 100)
      dataset_one generated_other = Inl ZeroDivisionError"
    by blast
  from empty_results_raise [of constant_score "3 / 10" "4 / 10" "3 / 10" dataset_one "[]"] l0
  have c: "evaluate_lexical_metrics constant_score (3 / 10) (4 / 10) (3 / 10) dataset_one []
      = Inl ZeroDivisionError"
    by blast
  from a b c show ?thesis by blast
qed

section \<open>Properties of the matcher\<close>

declare re_scan.simps [simp del] re_sub_from.simps [simp del]

lemma greedy_splits_rest:
  "(g', pv', s') \<in> set (greedy_splits p (g, pv, s)) \<Longrightarrow> set s' \<subseteq> set s"
  by (induction s arbitrary: pv) (auto split: if_splits)

lemma lazy_splits_rest:
  "(g', pv', s') \<in> set (lazy_splits p (g, pv, s)) \<Longrightarrow> set s' \<subseteq> set s"
  by (induction s arbitrary: pv) (auto split: if_splits)

lemma lit_step_rest:
  "(g', pv', s') \<in> set (lit_step w (g, pv, s)) \<Longrightarrow> set s' \<subseteq> set s"
  by (induction w "(g, pv, s)" arbitrary: pv s rule: lit_step.induct) (auto split: if_splits)

lemma ms_rest:
  "(g', pv', s') \<in> set (ms r (g, pv, s)) \<Longrightarrow> set s' \<subseteq> set s"
proof (induction r arbitrary: g pv s g' pv' s')
  case (Ch p)
  then show ?case by (auto split: list.splits if_splits)
next
  case (Lit w)
  then show ?case using lit_step_rest by auto
next
  case (Star p)
  then show ?case using greedy_splits_rest by auto
next
  case (Lazy p)
  then show ?case using lazy_splits_rest by auto
next
  case (Seq a b)
  from Seq.prems obtain g1 pv1 s1 where
    m1: "(g1, pv1, s1) \<in> set (ms a (g, pv, s))" and m2: "(g', pv', s') \<in> set (ms b (g1, pv1, s1))"
    by auto
  from Seq.IH(1) [OF m1] Seq.IH(2) [OF m2] show ?case by blast
next
  case (Alt a b)
  from Alt.prems have "(g', pv', s') \<in> set (ms a (g, pv, s)) \<or> (g', pv', s') \<in> set (ms b (g, pv, s))"
    by simp
  with Alt.IH show ?case by blast
next
  case (Opt a)
  from Opt.prems have "(g', pv', s') \<in> set (ms a (g, pv, s)) \<or> s' = s"
    by auto
  with Opt.IH show ?case by blast
next
  case (Grp i a)
  from Grp.prems obtain g0 where "(g0, pv', s') \<in> set (ms a (g, pv, s))"
    by auto
  with Grp.IH show ?case by blast
next
  case Eos
  then show ?case by (auto split: if_splits)
next
  case Wordb
  then show ?case by (auto split: if_splits)
next
  case Eps
  then show ?case by auto
qed



lemma re_sub_from_no_match:
  assumes "ms r ([], pv, c # cs) = []"
  shows "re_sub_from r rep pv (c # cs) = c # re_sub_from r rep (Some c) cs"
  using assms by (subst re_sub_from.simps) simp

lemma re_sub_from_match:
  assumes "ms r ([], pv, s) = (g, pv', s') # rest" "length s' < length s"
  shows "re_sub_from r rep pv s = rep @ re_sub_from r rep pv' s'"
  using assms by (subst re_sub_from.simps) simp

lemma re_sub_from_end:
  assumes "ms r ([], pv, []) = []"
  shows "re_sub_from r rep pv [] = []"
  using assms by (subst re_sub_from.simps) simp

text \<open>Deleting the characters of a class.\<close>

lemma re_sub_from_class:
  "re_sub_from (Ch p) [] pv s = filter (\<lambda>c. \<not> p c) s"
proof (induction s arbitrary: pv)
  case Nil
  show ?case by (simp add: re_sub_from_end)
next
  case (Cons c cs)
  show ?case
  proof (cases "p c")
    case True
    then have "ms (Ch p) ([], pv, c # cs) = [([], Some c, cs)]" by simp
    then have "re_sub_from (Ch p) [] pv (c # cs) = [] @ re_sub_from (Ch p) [] (Some c) cs"
      by (rule re_sub_from_match) simp
    with True Cons show ?thesis by simp
  next
    case False
    then have "ms (Ch p) ([], pv, c # cs) = []" by simp
    then have "re_sub_from (Ch p) [] pv (c # cs) = c # re_sub_from (Ch p) [] (Some c) cs"
      by (rule re_sub_from_no_match)
    with False Cons show ?thesis by simp
  qed
qed

text \<open>A run of whitespace becomes one space.\<close>

lemma greedy_splits_head:
  "\<exists>pv' rest. greedy_splits p (g, pv, s) = (g, pv', dropWhile p s) # rest"
proof (induction s arbitrary: pv)
  case Nil
  show ?case by simp
next
  case (Cons c cs)
  show ?case
  proof (cases "p c")
    case True
    from Cons [of "Some c"] obtain pv' rest where
      "greedy_splits p (g, Some c, cs) = (g, pv', dropWhile p cs) # rest" by blast
    with True show ?thesis by simp
  next
    case False
    then show ?thesis by simp
  qed
qed

lemma ms_spaces_match:
  assumes "is_space c"
  shows "\<exists>pv' rest. ms rx_spaces ([], pv, c # cs) = ([], pv', dropWhile is_space cs) # rest"
proof -
  from greedy_splits_head [of is_space "[]" "Some c" cs] obtain pv' rest where
    "greedy_splits is_space ([], Some c, cs) = ([], pv', dropWhile is_space cs) # rest"
    by blast
  with assms show ?thesis by (simp add: rx_spaces_def rx_plus_def)
qed

lemma ms_spaces_no_match:
  assumes "\<not> is_space c"
  shows "ms rx_spaces ([], pv, c # cs) = []"
  using assms by (simp add: rx_spaces_def rx_plus_def)

lemma ms_spaces_end: "ms rx_spaces ([], pv, []) = []"
  by (simp add: rx_spaces_def rx_plus_def)

lemma collapse_from_True:
  "collapse_from True s = collapse_from False (dropWhile is_space s)"
  by (induction s) simp_all

lemma re_sub_from_spaces:
  "re_sub_from rx_spaces '' '' pv s = collapse_from False s"
proof (induction "length s" arbitrary: pv s rule: less_induct)
  case less
  show ?case
  proof (cases s)
    case Nil
    then show ?thesis by (simp add: re_sub_from_end ms_spaces_end)
  next
    case (Cons c cs)
    show ?thesis
    proof (cases "is_space c")
      case True
      from ms_spaces_match [OF True, of pv cs] obtain pv' rest where
        m: "ms rx_spaces ([], pv, c # cs) = ([], pv', dropWhile is_space cs) # rest"
        by blast
      have len: "length (dropWhile is_space cs) < length (c # cs)"
        using length_dropWhile_le [of is_space cs] by simp
      have "re_sub_from rx_spaces '' '' pv (c # cs)
          = '' '' @ re_sub_from rx_spaces '' '' pv' (dropWhile is_space cs)"
        using m len by (rule re_sub_from_match)
      also have "re_sub_from rx_spaces '' '' pv' (dropWhile is_space cs)
          = collapse_from False (dropWhile is_space cs)"
        using less [of "dropWhile is_space cs" pv'] len Cons by simp
      finally show ?thesis
        using True Cons by (simp add: collapse_from_True)
    next
      case False
      have "re_sub_from rx_spaces '' '' pv (c # cs) = c # re_sub_from rx_spaces '' '' (Some c) cs"
        using ms_spaces_no_match [OF False] by (rule re_sub_from_no_match)
      with False Cons less [of cs "Some c"] show ?thesis by simp
    qed
  qed
qed

text \<open>A literal that does not occur, and a pattern that ends in a character that does not occur.\<close>

lemma lit_step_starts_with:
  "\<not> starts_with w s \<Longrightarrow> lit_step w (g, pv, s) = []"
  by (induction w s arbitrary: pv rule: starts_with.induct) simp_all

lemma re_sub_from_unmatched:
  assumes "\<And>pv u. set u \<subseteq> set s \<Longrightarrow> ms r ([], pv, u) = []"
  shows "re_sub_from r rep pv s = s"
  using assms
proof (induction s arbitrary: pv)
  case Nil
  then show ?case by (simp add: re_sub_from_end)
next
  case (Cons c cs)
  have "ms r ([], pv, c # cs) = []" using Cons.prems by blast
  then have "re_sub_from r rep pv (c # cs) = c # re_sub_from r rep (Some c) cs"
    by (rule re_sub_from_no_match)
  moreover have "re_sub_from r rep (Some c) cs = cs"
    using Cons.prems by (intro Cons.IH) auto
  ultimately show ?case by simp
qed

lemma re_sub_from_literal_absent:
  assumes "\<not> has_substring w s" "w \<noteq> []"
  shows "re_sub_from (Lit w) rep pv s = s"
  using assms
proof (induction s arbitrary: pv)
  case Nil
  then have "lit_step w ([], pv, []) = []" by (cases w) simp_all
  then show ?case by (simp add: re_sub_from_end)
next
  case (Cons c cs)
  then have "lit_step w ([], pv, c # cs) = []"
    by (simp add: lit_step_starts_with)
  then have "re_sub_from (Lit w) rep pv (c # cs) = c # re_sub_from (Lit w) rep (Some c) cs"
    by (intro re_sub_from_no_match) simp
  with Cons show ?case by simp
qed

lemma ms_Seq_empty:
  assumes "\<And>st. st \<in> set (ms a (g, pv, s)) \<Longrightarrow> ms b st = []"
  shows "ms (Seq a b) (g, pv, s) = []"
  using assms by simp

lemma ms_dot_absent:
  assumes "CHR ''.'' \<notin> set s"
  shows "ms (Lit ''.'') (g, pv, s) = []"
  using assms by (cases s) auto

lemma ms_qualifier_absent:
  assumes "CHR ''.'' \<notin> set s"
  shows "ms rx_qualifier (g, pv, s) = []"
proof -
  have tail: "ms (Seq (Lit ''.'') Eps) (g1, pv1, s1) = []" if "CHR ''.'' \<notin> set s1" for g1 pv1 s1
    using ms_dot_absent [OF that] by simp
  have mid: "ms (Seq (Star is_space) (Seq (Lit ''.'') Eps)) (g1, pv1, s1) = []"
    if "CHR ''.'' \<notin> set s1" for g1 pv1 s1
  proof (rule ms_Seq_empty)
    fix st assume st: "st \<in> set (ms (Star is_space) (g1, pv1, s1))"
    obtain g2 pv2 s2 where [simp]: "st = (g2, pv2, s2)" by (cases st)
    from st have "set s2 \<subseteq> set s1" using greedy_splits_rest by simp
    with that have "CHR ''.'' \<notin> set s2" by blast
    then show "ms (Seq (Lit ''.'') Eps) st = []" using tail by simp
  qed
  have "ms (Seq (Grp 1 (rx_plus lower_id_char)) (Seq (Star is_space) (Seq (Lit ''.'') Eps)))
          (g, pv, s) = []"
  proof (rule ms_Seq_empty)
    fix st assume st: "st \<in> set (ms (Grp 1 (rx_plus lower_id_char)) (g, pv, s))"
    obtain g2 pv2 s2 where [simp]: "st = (g2, pv2, s2)" by (cases st)
    from st have "set s2 \<subseteq> set s"
      using ms_rest [of g2 pv2 s2 "Grp 1 (rx_plus lower_id_char)" g pv s] by simp
    with assms have "CHR ''.'' \<notin> set s2" by blast
    then show "ms (Seq (Star is_space) (Seq (Lit ''.'') Eps)) st = []" using mid by simp
  qed
  then show ?thesis by (simp add: rx_qualifier_def rx_seqs_def)
qed

lemma re_sub_from_qualifier_absent:
  assumes "CHR ''.'' \<notin> set s"
  shows "re_sub_from rx_qualifier rep pv s = s"
proof (rule re_sub_from_unmatched)
  fix pv u assume "set u \<subseteq> set s"
  with assms have "CHR ''.'' \<notin> set u" by blast
  then show "ms rx_qualifier ([], pv, u) = []" by (rule ms_qualifier_absent)
qed


section \<open>Properties of the normalizers\<close>

lemmas char_class_defs = lower_char_def is_space_def is_backtick_def is_semicolon_def
  in_range_def char_code_def



lemma lower_char_space: "is_space c \<Longrightarrow> lower_char c = c"
  by (auto simp: char_class_defs)


lemma is_space_blank: "is_space CHR '' ''"
  by (simp add: char_class_defs)

lemma backtick_not_space: "is_space c \<Longrightarrow> \<not> is_backtick c"
  by (auto simp: char_class_defs)

lemma semicolon_not_space: "is_space c \<Longrightarrow> \<not> is_semicolon c"
  by (auto simp: char_class_defs)


lemma str_lower_fixed: "(\<And>c. c \<in> set s \<Longrightarrow> lower_char c = c) \<Longrightarrow> str_lower s = s"
  by (simp add: str_lower_def map_idI)






lemma collapse_from_all_space:
  "(\<And>c. c \<in> set s \<Longrightarrow> is_space c) \<Longrightarrow> collapse_from True s = []"
  by (induction s) simp_all





text \<open>The steps of the normalizers, one by one.\<close>

lemma re_sub_backtick: "re_sub rx_backtick [] s = filter (\<lambda>c. \<not> is_backtick c) s"
  by (simp add: re_sub_def rx_backtick_def re_sub_from_class)

lemma re_sub_semicolon: "re_sub rx_semicolon [] s = filter (\<lambda>c. \<not> is_semicolon c) s"
  by (simp add: re_sub_def rx_semicolon_def re_sub_from_class)

lemma re_sub_spaces: "re_sub rx_spaces '' '' s = collapse_from False s"
  by (simp add: re_sub_def re_sub_from_spaces)

lemma re_sub_as_absent: "\<not> has_substring '' as '' s \<Longrightarrow> re_sub rx_as '' '' s = s"
  by (simp add: re_sub_def rx_as_def re_sub_from_literal_absent)


lemma has_substring_char: "has_substring [c] s \<longleftrightarrow> c \<in> set s"
  by (induction s) auto

lemma re_sub_qualifier_absent:
  "\<not> has_substring ''.'' s \<Longrightarrow> re_sub rx_qualifier [] s = s"
  by (simp add: re_sub_def re_sub_from_qualifier_absent has_substring_char)






























text \<open>An input of whitespace only.\<close>

lemma collapse_all_space:
  assumes "\<forall>c \<in> set s. is_space c"
  shows "collapse_from False s = [] \<or> collapse_from False s = '' ''"
proof (cases s)
  case Nil
  then show ?thesis by simp
next
  case (Cons c cs)
  with assms have "collapse_from True cs = []"
    by (intro collapse_from_all_space) simp
  with Cons assms show ?thesis by simp
qed

lemma all_space_prefix:
  assumes "\<forall>c \<in> set s. is_space c"
  shows "re_sub rx_spaces '' '' (re_sub rx_backtick [] (str_lower s)) = []
         \<or> re_sub rx_spaces '' '' (re_sub rx_backtick [] (str_lower s)) = '' ''"
proof -
  have l: "str_lower s = s"
    using assms by (intro str_lower_fixed) (simp add: lower_char_space)
  have b: "filter (\<lambda>c. \<not> is_backtick c) s = s"
    using assms by (simp add: backtick_not_space)
  show ?thesis
    using collapse_all_space [OF assms] by (simp add: l re_sub_backtick b re_sub_spaces)
qed

lemma blank_tail_struct:
  "str_strip (re_sub rx_semicolon [] (re_sub rx_as '' '' t)) = []" if "t = [] \<or> t = '' ''"
proof -
  have "\<not> has_substring '' as '' t" using that by auto
  then have "re_sub rx_as '' '' t = t" by (rule re_sub_as_absent)
  moreover have "filter (\<lambda>c. \<not> is_semicolon c) t = t"
    using that by (auto simp: char_class_defs)
  moreover have "str_strip t = []"
    using that by (auto simp: str_strip_def is_space_blank)
  ultimately show ?thesis by (simp add: re_sub_semicolon)
qed

lemma blank_tail_lexical:
  "str_strip (re_sub rx_semicolon [] (re_sub rx_qualifier [] (re_sub rx_as '' '' t))) = []"
  if "t = [] \<or> t = '' ''"
proof -
  have "\<not> has_substring '' as '' t" using that by auto
  then have "re_sub rx_as '' '' t = t" by (rule re_sub_as_absent)
  moreover have "\<not> has_substring ''.'' t" using that by auto
  then have "re_sub rx_qualifier [] t = t" by (rule re_sub_qualifier_absent)
  moreover have "filter (\<lambda>c. \<not> is_semicolon c) t = t"
    using that by (auto simp: char_class_defs)
  moreover have "str_strip t = []"
    using that by (auto simp: str_strip_def is_space_blank)
  ultimately show ?thesis by (simp add: re_sub_semicolon)
qed

text \<open>
  C8: \<open>normalize_sql\<close> raises nowhere: \<open>lower\<close>, \<open>re.sub\<close> and \<open>strip\<close> are defined
  on every string, so both normalizers are functions from strings to strings with no error
  result, the scan behind \<open>re.sub\<close> terminates on every input (the termination proof
  of \<open>re_sub_from\<close>), and the result depends on the input alone. Each normalizer maps
  the empty string and every string of whitespace only to the empty string.
\<close>

theorem normalize_sql_whitespace_only:
  "(\<forall>c \<in> set s. is_space c)
   \<longrightarrow> normalize_sql_lexical s = [] \<and> normalize_sql_struct s = []"
proof
  assume ws: "\<forall>c \<in> set s. is_space c"
  from all_space_prefix [OF ws] blank_tail_lexical
  have l: "normalize_sql_lexical s = []"
    unfolding normalize_sql_lexical_def Let_def by blast
  from all_space_prefix [OF ws] blank_tail_struct
  have t: "normalize_sql_struct s = []"
    unfolding normalize_sql_struct_def Let_def by blast
  from l t show "normalize_sql_lexical s = [] \<and> normalize_sql_struct s = []" by blast
qed

theorem normalize_sql_whitespace_only_witness:
  "normalize_sql_lexical [CHR '' '', CHR 0x09, CHR 0x0A, CHR '' ''] = []
   \<and> normalize_sql_struct [CHR '' '', CHR 0x09, CHR 0x0A, CHR '' ''] = []
   \<and> normalize_sql_lexical [] = [] \<and> normalize_sql_struct [] = []"
proof -
  have ws: "\<forall>c \<in> set [CHR '' '', CHR 0x09, CHR 0x0A, CHR '' '']. is_space c"
    by (simp add: char_class_defs)
  from normalize_sql_whitespace_only [of "[CHR '' '', CHR 0x09, CHR 0x0A, CHR '' '']"] ws
  have a: "normalize_sql_lexical [CHR '' '', CHR 0x09, CHR 0x0A, CHR '' ''] = []
      \<and> normalize_sql_struct [CHR '' '', CHR 0x09, CHR 0x0A, CHR '' ''] = []"
    by blast
  from normalize_sql_whitespace_only [of "[]"]
  have b: "normalize_sql_lexical [] = [] \<and> normalize_sql_struct [] = []"
    by simp
  from a b show ?thesis by blast
qed

end
